theory Spec2Isabelle
  imports Main "HOL-Library.Word"
begin

section \<open>The DNS resolver: data model\<close>

text \<open>
  The program is one Go file: a process-wide cache \<open>dnsCache\<close> guarded by a mutex, the
  functions \<open>normalizeDomain\<close>, \<open>cacheResult\<close>, \<open>getCachedResult\<close>, \<open>resolveDNS\<close>,
  \<open>reverseDNS\<close>, \<open>resolveBatch\<close>, \<open>printRecords\<close> and \<open>main\<close>.

  A Go \<open>error\<close> is modelled by its message (what \<open>%v\<close> prints); a nil error is \<open>None\<close>.
  A Go call returning \<open>(value, err)\<close> is a pair \<open>(value, error option)\<close>: Go returns both,
  and the code decides on \<open>err == nil\<close>.

  A \<open>time.Time\<close> is an instant on an integer time line, counted in nanoseconds, and a
  \<open>time.Duration\<close> is a number of nanoseconds, as in Go. Every call of \<open>time.Now()\<close>
  is an argument of the function that makes it.
\<close>

type_synonym error = string
type_synonym time = int
type_synonym RecordSet = "string \<rightharpoonup> string list"

text \<open>The anonymous struct stored in \<open>dnsCache\<close>.\<close>

record cacheEntry =
  records :: RecordSet
  expiry :: time

text \<open>\<open>net.IP\<close> is a byte slice; \<open>net.MX\<close> and \<open>net.NS\<close> are structs of the Go library.\<close>

type_synonym IP = "8 word list"

datatype MX = MX (mx_Host: string) (mx_Pref: "16 word")

datatype NS = NS (ns_Host: string)

text \<open>One invocation of the platform resolver, with its argument.\<close>

datatype netCall =
    LookupIP string
  | LookupCNAME string
  | LookupMX string
  | LookupTXT string
  | LookupNS string
  | LookupAddr string

text \<open>
  What the program calls but does not define: the IDNA conversion, the resolver of package
  \<open>net\<close>, the two methods of \<open>net.IP\<close> it uses, the two files it opens, and the order
  in which the runtime ranges over a map.
\<close>

record env =
  idna_ToASCII :: "string \<Rightarrow> string \<times> error option"
  net_LookupIP :: "string \<Rightarrow> IP list \<times> error option"
  net_LookupCNAME :: "string \<Rightarrow> string \<times> error option"
  net_LookupMX :: "string \<Rightarrow> MX list \<times> error option"
  net_LookupTXT :: "string \<Rightarrow> string list \<times> error option"
  net_LookupNS :: "string \<Rightarrow> NS list \<times> error option"
  net_LookupAddr :: "string \<Rightarrow> string list \<times> error option"
  IP_To4 :: "IP \<Rightarrow> IP option"
  IP_String :: "IP \<Rightarrow> string"
  os_OpenFile_log :: "error option"
  os_Open :: "string \<Rightarrow> string list \<times> error option"
  range_keys :: "RecordSet \<Rightarrow> string list"

text \<open>
  The state the program changes: the cache, what was written through package \<open>log\<close>
  (one entry per call, without the timestamp prefix), the bytes written to standard output,
  and the resolver invocations made so far, oldest first.
\<close>

record world =
  dnsCache :: "string \<rightharpoonup> cacheEntry"
  logged :: "string list"
  stdout :: string
  netCalls :: "netCall list"

text \<open>
  How a function that may end the process finishes: it returns, or the process exits with a
  status. \<open>FanOut\<close> is the point where \<open>resolveBatch\<close> has launched one goroutine per
  line read; the interleaving of these goroutines is outside this sequential model.
\<close>

datatype outcome =
    Return world
  | Exit int world
  | FanOut "string list" world

section \<open>Library operations\<close>

definition NL :: char where
  "NL = CHR 0x0A"

definition log_Printf :: "string \<Rightarrow> world \<Rightarrow> world" where
  "log_Printf msg w = w\<lparr>logged := logged w @ [msg]\<rparr>"

definition fmt_Print :: "string \<Rightarrow> world \<Rightarrow> world" where
  "fmt_Print s w = w\<lparr>stdout := stdout w @ s\<rparr>"

definition fmt_Println :: "string \<Rightarrow> world \<Rightarrow> world" where
  "fmt_Println s w = fmt_Print (s @ [NL]) w"

definition invoke :: "netCall \<Rightarrow> world \<Rightarrow> world" where
  "invoke c w = w\<lparr>netCalls := netCalls w @ [c]\<rparr>"

text \<open>The constants of package \<open>time\<close>, in nanoseconds, and \<open>Time.After\<close>.\<close>

definition Nanosecond :: int where "Nanosecond = 1"
definition Microsecond :: int where "Microsecond = 1000 * Nanosecond"
definition Millisecond :: int where "Millisecond = 1000 * Microsecond"
definition Second :: int where "Second = 1000 * Millisecond"
definition Minute :: int where "Minute = 60 * Second"

definition After :: "time \<Rightarrow> time \<Rightarrow> bool" where
  "After t u = (u < t)"

text \<open>The verb \<open>%d\<close> of \<open>fmt\<close> on an unsigned value.\<close>

definition digit :: "nat \<Rightarrow> char" where
  "digit n = char_of (48 + n)"

function decimal :: "nat \<Rightarrow> string" where
  "decimal n = (if n < 10 then [digit n] else decimal (n div 10) @ [digit (n mod 10)])"
  by pat_completeness auto
termination
  by (relation "measure id") auto

declare decimal.simps [simp del]

text \<open>\<open>strings.Contains\<close>.\<close>

fun HasPrefix :: "string \<Rightarrow> string \<Rightarrow> bool" where
  "HasPrefix s [] = True"
| "HasPrefix [] (c # cs) = False"
| "HasPrefix (x # xs) (c # cs) = (x = c \<and> HasPrefix xs cs)"

fun Contains :: "string \<Rightarrow> string \<Rightarrow> bool" where
  "Contains [] substr = (substr = [])"
| "Contains (x # xs) substr = (HasPrefix (x # xs) substr \<or> Contains xs substr)"

text \<open>
  Reading a missing key of a Go map yields the nil slice; \<open>append\<close> to it starts a new
  slice. \<open>append_key\<close> is the statement \<open>records[k] = append(records[k], v)\<close>.
\<close>

definition index_map :: "RecordSet \<Rightarrow> string \<Rightarrow> string list" where
  "index_map recs k = (case recs k of None \<Rightarrow> [] | Some vs \<Rightarrow> vs)"

definition append_key :: "RecordSet \<Rightarrow> string \<Rightarrow> string \<Rightarrow> RecordSet" where
  "append_key recs k v = recs(k \<mapsto> index_map recs k @ [v])"

section \<open>The program\<close>

subsection \<open>normalizeDomain\<close>

definition normalizeDomain :: "env \<Rightarrow> string \<Rightarrow> world \<Rightarrow> string \<times> world" where
  "normalizeDomain e domain w =
     (case idna_ToASCII e domain of
        (normalized, Some err) \<Rightarrow> (domain, log_Printf (''Error normalizing domain: '' @ err) w)
      | (normalized, None) \<Rightarrow> (normalized, w))"

subsection \<open>The cache\<close>

text \<open>
  Both functions hold \<open>cacheMutex\<close> for their whole body, so each is one atomic step on
  the cache. \<open>now\<close> is the value of \<open>time.Now()\<close>. A miss returns the nil map, which reads
  as the empty map.
\<close>

definition cacheResult :: "time \<Rightarrow> string \<Rightarrow> RecordSet \<Rightarrow> world \<Rightarrow> world" where
  "cacheResult now domain recs w =
     w\<lparr>dnsCache := (dnsCache w)(domain \<mapsto> \<lparr>records = recs, expiry = now + 10 * Minute\<rparr>)\<rparr>"

definition getCachedResult :: "time \<Rightarrow> string \<Rightarrow> world \<Rightarrow> RecordSet \<times> bool" where
  "getCachedResult now domain w =
     (case dnsCache w domain of
        None \<Rightarrow> (Map.empty, False)
      | Some entry \<Rightarrow>
          if After now (expiry entry) then (Map.empty, False) else (records entry, True))"

subsection \<open>resolveDNS\<close>

text \<open>The loop over the addresses returned by \<open>net.LookupIP\<close>.\<close>

fun appendIPs :: "env \<Rightarrow> IP list \<Rightarrow> RecordSet \<Rightarrow> RecordSet" where
  "appendIPs e [] recs = recs"
| "appendIPs e (ip # ips) recs =
     appendIPs e ips
       (if IP_To4 e ip \<noteq> None then append_key recs ''A'' (IP_String e ip)
        else append_key recs ''AAAA'' (IP_String e ip))"

definition Sprintf_MX :: "MX \<Rightarrow> string" where
  "Sprintf_MX mx = mx_Host mx @ '' (Priority: '' @ decimal (unat (mx_Pref mx)) @ '')''"

fun appendMXs :: "MX list \<Rightarrow> RecordSet \<Rightarrow> RecordSet" where
  "appendMXs [] recs = recs"
| "appendMXs (mx # mxRecords) recs =
     appendMXs mxRecords
       (append_key recs ''MX'' (Sprintf_MX mx))"

fun appendNSs :: "NS list \<Rightarrow> RecordSet \<Rightarrow> RecordSet" where
  "appendNSs [] recs = recs"
| "appendNSs (ns # nsRecords) recs = appendNSs nsRecords (append_key recs ''NS'' (ns_Host ns))"

text \<open>The five blocks of \<open>resolveDNS\<close>, in the order of the source.\<close>

definition lookupA :: "env \<Rightarrow> string \<Rightarrow> RecordSet \<times> world \<Rightarrow> RecordSet \<times> world" where
  "lookupA e domain rw =
     (case rw of (recs, w) \<Rightarrow>
        (case net_LookupIP e domain of
           (ips, None) \<Rightarrow> (appendIPs e ips recs, invoke (LookupIP domain) w)
         | (ips, Some err) \<Rightarrow>
             (recs, log_Printf (''Error looking up IP: '' @ err) (invoke (LookupIP domain) w))))"

definition lookupCNAME :: "env \<Rightarrow> string \<Rightarrow> RecordSet \<times> world \<Rightarrow> RecordSet \<times> world" where
  "lookupCNAME e domain rw =
     (case rw of (recs, w) \<Rightarrow>
        (case net_LookupCNAME e domain of
           (cname, None) \<Rightarrow> (recs(''CNAME'' \<mapsto> [cname]), invoke (LookupCNAME domain) w)
         | (cname, Some err) \<Rightarrow>
             (recs, log_Printf (''Error looking up CNAME: '' @ err)
                      (invoke (LookupCNAME domain) w))))"

definition lookupMX :: "env \<Rightarrow> string \<Rightarrow> RecordSet \<times> world \<Rightarrow> RecordSet \<times> world" where
  "lookupMX e domain rw =
     (case rw of (recs, w) \<Rightarrow>
        (case net_LookupMX e domain of
           (mxRecords, None) \<Rightarrow> (appendMXs mxRecords recs, invoke (LookupMX domain) w)
         | (mxRecords, Some err) \<Rightarrow>
             (recs, log_Printf (''Error looking up MX: '' @ err) (invoke (LookupMX domain) w))))"

definition lookupTXT :: "env \<Rightarrow> string \<Rightarrow> RecordSet \<times> world \<Rightarrow> RecordSet \<times> world" where
  "lookupTXT e domain rw =
     (case rw of (recs, w) \<Rightarrow>
        (case net_LookupTXT e domain of
           (txtRecords, None) \<Rightarrow> (recs(''TXT'' \<mapsto> txtRecords), invoke (LookupTXT domain) w)
         | (txtRecords, Some err) \<Rightarrow>
             (recs, log_Printf (''Error looking up TXT: '' @ err) (invoke (LookupTXT domain) w))))"

definition lookupNS :: "env \<Rightarrow> string \<Rightarrow> RecordSet \<times> world \<Rightarrow> RecordSet \<times> world" where
  "lookupNS e domain rw =
     (case rw of (recs, w) \<Rightarrow>
        (case net_LookupNS e domain of
           (nsRecords, None) \<Rightarrow> (appendNSs nsRecords recs, invoke (LookupNS domain) w)
         | (nsRecords, Some err) \<Rightarrow>
             (recs, log_Printf (''Error looking up NS: '' @ err) (invoke (LookupNS domain) w))))"

definition lookupAll :: "env \<Rightarrow> string \<Rightarrow> RecordSet \<times> world \<Rightarrow> RecordSet \<times> world" where
  "lookupAll e domain rw =
     lookupNS e domain (lookupTXT e domain (lookupMX e domain
       (lookupCNAME e domain (lookupA e domain rw))))"

text \<open>
  \<open>resolveDNS\<close> reads the clock once in \<open>getCachedResult\<close> (\<open>t_get\<close>) and, on a miss,
  once more in \<open>cacheResult\<close> (\<open>t_put\<close>), after the lookups.
\<close>

definition resolveDNS :: "env \<Rightarrow> time \<Rightarrow> time \<Rightarrow> string \<Rightarrow> world \<Rightarrow> RecordSet \<times> world" where
  "resolveDNS e t_get t_put domain0 w0 =
     (case normalizeDomain e domain0 w0 of (domain, w1) \<Rightarrow>
        (case getCachedResult t_get domain w1 of
           (cached, True) \<Rightarrow> (cached, fmt_Println ''Cache hit!'' w1)
         | (cached, False) \<Rightarrow>
             (case lookupAll e domain (Map.empty, w1) of
                (recs, w2) \<Rightarrow> (recs, cacheResult t_put domain recs w2))))"

subsection \<open>reverseDNS, printRecords\<close>

fun printValues :: "string list \<Rightarrow> world \<Rightarrow> world" where
  "printValues [] w = w"
| "printValues (v # vs) w = printValues vs (fmt_Println ('' - '' @ v) w)"

definition reverseDNS :: "env \<Rightarrow> string \<Rightarrow> world \<Rightarrow> world" where
  "reverseDNS e ip w =
     (case net_LookupAddr e ip of
        (hosts, Some err) \<Rightarrow>
          log_Printf (''Error during reverse DNS lookup: '' @ err) (invoke (LookupAddr ip) w)
      | (hosts, None) \<Rightarrow>
          printValues hosts (fmt_Println ''Reverse DNS:'' (invoke (LookupAddr ip) w)))"

text \<open>
  Go ranges over a map in an order the runtime chooses: \<open>range_keys\<close> gives it. A key
  the map does not hold prints nothing.
\<close>

fun printTypes :: "RecordSet \<Rightarrow> string list \<Rightarrow> world \<Rightarrow> world" where
  "printTypes recs [] w = w"
| "printTypes recs (recordType # ks) w =
     printTypes recs ks
       (case recs recordType of
          None \<Rightarrow> w
        | Some vs \<Rightarrow> printValues vs (fmt_Print (recordType @ '' Records:'' @ [NL]) w))"

definition printRecords :: "env \<Rightarrow> string \<Rightarrow> RecordSet \<Rightarrow> world \<Rightarrow> world" where
  "printRecords e domain recs w =
     printTypes recs (range_keys e recs)
       (fmt_Print ([NL] @ ''DNS Records for '' @ domain @ '':'' @ [NL]) w)"

subsection \<open>initLogger, resolveBatch, main\<close>

text \<open>\<open>log.Fatalf\<close> writes its message and calls \<open>os.Exit(1)\<close>.\<close>

definition initLogger :: "env \<Rightarrow> world \<Rightarrow> outcome" where
  "initLogger e w =
     (case os_OpenFile_log e of
        Some err \<Rightarrow> Exit 1 (log_Printf (''Error opening log file: '' @ err) w)
      | None \<Rightarrow> Return w)"

text \<open>
  The file is the list of lines its scanner yields. When it opens, one goroutine per line
  is launched, each running \<open>resolveDNS\<close> and \<open>printRecords\<close> on its line.
\<close>

definition resolveBatch :: "env \<Rightarrow> string \<Rightarrow> world \<Rightarrow> outcome" where
  "resolveBatch e filePath w =
     (case os_Open e filePath of
        (file, Some err) \<Rightarrow> Exit 1 (log_Printf (''Error reading file: '' @ err) w)
      | (file, None) \<Rightarrow> FanOut file w)"

definition usage :: string where
  "usage = ''Usage: go run main.go <domain|ip> [--reverse|--file <path>|--server <dns_server>]''"

definition main :: "env \<Rightarrow> time \<Rightarrow> time \<Rightarrow> string list \<Rightarrow> world \<Rightarrow> outcome" where
  "main e t_get t_put os_Args w0 =
     (case initLogger e w0 of
        Return w \<Rightarrow>
          if length os_Args < 2 then Return (fmt_Println usage w)
          else
            (let arg = os_Args ! 1 in
             if Contains arg ''.'' then
               (if length os_Args = 4 \<and> os_Args ! 2 = ''--server''
                then Return (fmt_Println ''Coming soon ...'' w)
                else (case resolveDNS e t_get t_put arg w of
                        (recs, w') \<Rightarrow> Return (printRecords e arg recs w')))
             else if Contains arg '':'' then Return (reverseDNS e arg w)
             else if length os_Args = 3 \<and> os_Args ! 2 = ''--file'' then resolveBatch e arg w
             else Return (fmt_Println ''Invalid input.'' w))
      | other \<Rightarrow> other)"

section \<open>Sequences of cache writes\<close>

text \<open>
  \<open>puts\<close> runs \<open>cacheResult\<close> once per element of a list, first element first;
  \<open>lastPut\<close> finds the most recent of these writes for one domain.
\<close>

fun puts :: "(time \<times> string \<times> RecordSet) list \<Rightarrow> world \<Rightarrow> world" where
  "puts [] w = w"
| "puts ((now, domain, recs) # ps) w = puts ps (cacheResult now domain recs w)"

fun lastPut :: "string \<Rightarrow> (time \<times> string \<times> RecordSet) list \<Rightarrow> (time \<times> RecordSet) option" where
  "lastPut d [] = None"
| "lastPut d ((now, domain, recs) # ps) =
     (case lastPut d ps of
        Some p \<Rightarrow> Some p
      | None \<Rightarrow> if domain = d then Some (now, recs) else None)"

section \<open>Example environments\<close>

definition world0 :: world where
  "world0 = \<lparr>dnsCache = Map.empty, logged = [], stdout = [], netCalls = []\<rparr>"

text \<open>An environment in which every lookup fails and no file opens but the log.\<close>

definition env_down :: env where
  "env_down =
     \<lparr>idna_ToASCII = (\<lambda>d. if d = ''a..b'' then ([], Some ''idna: invalid label'') else (d, None)),
      net_LookupIP = (\<lambda>d. ([], Some ''no such host'')),
      net_LookupCNAME = (\<lambda>d. ([], Some ''no such host'')),
      net_LookupMX = (\<lambda>d. ([], Some ''no such host'')),
      net_LookupTXT = (\<lambda>d. ([], Some ''no such host'')),
      net_LookupNS = (\<lambda>d. ([], Some ''no such host'')),
      net_LookupAddr = (\<lambda>d. ([], Some ''unrecognized address'')),
      IP_To4 = (\<lambda>ip. if length ip = 4 then Some ip else None),
      IP_String = (\<lambda>ip. if length ip = 4 then ''192.0.2.1'' else ''2001:db8::1''),
      os_OpenFile_log = None,
      os_Open = (\<lambda>p. ([], Some ''no such file or directory'')),
      range_keys = (\<lambda>recs. [''A'', ''AAAA'', ''CNAME'', ''MX'', ''TXT'', ''NS''])\<rparr>"

text \<open>
  The address, MX, TXT and NS lookups succeed with no values; the CNAME lookup fails.
\<close>

definition env_empty :: env where
  "env_empty =
     env_down
       \<lparr>net_LookupIP := (\<lambda>d. ([], None)),
        net_LookupMX := (\<lambda>d. ([], None)),
        net_LookupTXT := (\<lambda>d. ([], None)),
        net_LookupNS := (\<lambda>d. ([], None))\<rparr>"

text \<open>Every lookup succeeds except the one for MX.\<close>

definition env_up :: env where
  "env_up =
     env_down
       \<lparr>net_LookupIP := (\<lambda>d. ([[192, 0, 2, 1], [32, 1, 13, 184, 0, 0, 0, 0, 0, 0, 0, 0, 0, 0, 0, 1]], None)),
        net_LookupCNAME := (\<lambda>d. (d @ ''.'', None)),
        net_LookupTXT := (\<lambda>d. ([''v=spf1 -all''], None)),
        net_LookupNS := (\<lambda>d. ([NS ''ns1.example.net.''], None))\<rparr>"

section \<open>Facts about the library operations\<close>

lemma ten_minutes: "10 * Minute = 600000000000"
  by (simp add: Minute_def Second_def Millisecond_def Microsecond_def Nanosecond_def)

lemma Contains_single: "Contains s [c] = (c \<in> set s)"
  by (induction s) (auto elim: HasPrefix.elims)

lemma index_map_append_key:
  "index_map (append_key recs k v) k' =
     (if k' = k then index_map recs k @ [v] else index_map recs k')"
  by (simp add: append_key_def index_map_def)

lemma append_key_apply:
  "append_key recs k v k' = (if k' = k then Some (index_map recs k @ [v]) else recs k')"
  by (simp add: append_key_def)

section \<open>The cache\<close>

lemma getCachedResult_cases:
  "getCachedResult now domain w =
     (case dnsCache w domain of
        None \<Rightarrow> (Map.empty, False)
      | Some entry \<Rightarrow> if expiry entry < now then (Map.empty, False) else (records entry, True))"
  by (simp add: getCachedResult_def After_def split: option.splits)

lemma getCachedResult_cong:
  "dnsCache w = dnsCache w' \<Longrightarrow> getCachedResult now domain w = getCachedResult now domain w'"
  by (simp add: getCachedResult_def)

lemma dnsCache_cacheResult:
  "dnsCache (cacheResult now domain recs w) =
     (dnsCache w)(domain \<mapsto> \<lparr>records = recs, expiry = now + 600000000000\<rparr>)"
  by (simp add: cacheResult_def ten_minutes)

lemma dnsCache_puts:
  "dnsCache (puts ps w) d =
     (case lastPut d ps of
        None \<Rightarrow> dnsCache w d
      | Some (t, r) \<Rightarrow> Some \<lparr>records = r, expiry = t + 600000000000\<rparr>)"
  by (induction ps w rule: puts.induct) (auto simp: dnsCache_cacheResult split: option.splits)

text \<open>
  C5. \<open>cacheResult\<close> leaves under the domain exactly one entry, holding the record set
  given and the expiry \<open>now\<close> plus 10 minutes (600000000000 ns), whatever was stored there
  before; the entry of every other domain, the log, the output and the resolver calls are as
  they were.
\<close>

theorem cacheResult_replaces:
  "dnsCache (cacheResult now domain recs w) domain =
     Some \<lparr>records = recs, expiry = now + 600000000000\<rparr>
   \<and> (\<forall>d. d \<noteq> domain \<longrightarrow> dnsCache (cacheResult now domain recs w) d = dnsCache w d)
   \<and> logged (cacheResult now domain recs w) = logged w
   \<and> stdout (cacheResult now domain recs w) = stdout w
   \<and> netCalls (cacheResult now domain recs w) = netCalls w"
  by (simp add: dnsCache_cacheResult) (simp add: cacheResult_def)

theorem cacheResult_replaces_witness:
  "dnsCache (cacheResult 7 ''a.org'' [''TXT'' \<mapsto> [''new'']]
      (cacheResult 3 ''b.org'' Map.empty (cacheResult 1 ''a.org'' Map.empty world0))) ''a.org''
     = Some \<lparr>records = [''TXT'' \<mapsto> [''new'']], expiry = 600000000007\<rparr>
   \<and> ''b.org'' \<noteq> ''a.org''
   \<and> dnsCache (cacheResult 7 ''a.org'' [''TXT'' \<mapsto> [''new'']]
      (cacheResult 3 ''b.org'' Map.empty (cacheResult 1 ''a.org'' Map.empty world0))) ''b.org''
     = Some \<lparr>records = Map.empty, expiry = 600000000003\<rparr>"
  using cacheResult_replaces [of 7 "''a.org''" "[''TXT'' \<mapsto> [''new'']]"
      "cacheResult 3 ''b.org'' Map.empty (cacheResult 1 ''a.org'' Map.empty world0)"]
    cacheResult_replaces [of 3 "''b.org''" Map.empty "cacheResult 1 ''a.org'' Map.empty world0"]
  by simp

text \<open>
  C4. \<open>getCachedResult\<close> reports \<open>found = false\<close> when the cache has no entry for the
  domain or when the clock is after the entry's expiry; otherwise it reports \<open>found = true\<close>
  with the stored record set. After any sequence of \<open>cacheResult\<close> calls, the record set
  it returns for a domain is the one given to the most recent call for that domain, found as
  long as the clock is not after that call's time plus 10 minutes.
\<close>

theorem getCachedResult_found:
  "(dnsCache w domain = None \<longrightarrow> getCachedResult now domain w = (Map.empty, False))
   \<and> (\<forall>entry. dnsCache w domain = Some entry \<and> expiry entry < now \<longrightarrow>
         getCachedResult now domain w = (Map.empty, False))
   \<and> (\<forall>entry. dnsCache w domain = Some entry \<and> \<not> expiry entry < now \<longrightarrow>
         getCachedResult now domain w = (records entry, True))
   \<and> (\<forall>t recs. lastPut domain ps = Some (t, recs) \<longrightarrow>
         getCachedResult now domain (puts ps w) =
           (if t + 600000000000 < now then (Map.empty, False) else (recs, True)))"
  by (simp add: getCachedResult_cases dnsCache_puts)

theorem getCachedResult_found_witness:
  "dnsCache world0 ''a.org'' = None
   \<and> getCachedResult 5 ''a.org'' world0 = (Map.empty, False)
   \<and> lastPut ''a.org'' [(1, ''a.org'', Map.empty), (2, ''a.org'', [''TXT'' \<mapsto> [''x'']]),
        (3, ''b.org'', Map.empty)] = Some (2, [''TXT'' \<mapsto> [''x'']])
   \<and> getCachedResult 600000000002 ''a.org''
        (puts [(1, ''a.org'', Map.empty), (2, ''a.org'', [''TXT'' \<mapsto> [''x'']]),
           (3, ''b.org'', Map.empty)] world0) = ([''TXT'' \<mapsto> [''x'']], True)
   \<and> getCachedResult 600000000003 ''a.org''
        (puts [(1, ''a.org'', Map.empty), (2, ''a.org'', [''TXT'' \<mapsto> [''x'']]),
           (3, ''b.org'', Map.empty)] world0) = (Map.empty, False)"
  using getCachedResult_found [of world0 "''a.org''" 5 "[]"]
    getCachedResult_found [of world0 "''a.org''" 600000000002
      "[(1, ''a.org'', Map.empty), (2, ''a.org'', [''TXT'' \<mapsto> [''x'']]), (3, ''b.org'', Map.empty)]"]
    getCachedResult_found [of world0 "''a.org''" 600000000003
      "[(1, ''a.org'', Map.empty), (2, ''a.org'', [''TXT'' \<mapsto> [''x'']]), (3, ''b.org'', Map.empty)]"]
  by (simp add: world0_def)

text \<open>
  C10. When the clock equals the expiry of the entry stored for a domain,
  \<open>getCachedResult\<close> still finds it; it reports the entry as absent exactly when the clock
  is strictly after the expiry.
\<close>

theorem getCachedResult_at_expiry:
  assumes "dnsCache w domain = Some entry"
  shows "getCachedResult (expiry entry) domain w = (records entry, True)
         \<and> (\<forall>now. snd (getCachedResult now domain w) = (\<not> expiry entry < now))"
  using assms by (simp add: getCachedResult_cases)

theorem getCachedResult_at_expiry_witness:
  "dnsCache (cacheResult 0 ''a.org'' [''TXT'' \<mapsto> [''x'']] world0) ''a.org''
     = Some \<lparr>records = [''TXT'' \<mapsto> [''x'']], expiry = 600000000000\<rparr>
   \<and> getCachedResult 600000000000 ''a.org'' (cacheResult 0 ''a.org'' [''TXT'' \<mapsto> [''x'']] world0)
     = ([''TXT'' \<mapsto> [''x'']], True)
   \<and> snd (getCachedResult 600000000001 ''a.org''
        (cacheResult 0 ''a.org'' [''TXT'' \<mapsto> [''x'']] world0)) = False"
proof -
  have stored: "dnsCache (cacheResult 0 ''a.org'' [''TXT'' \<mapsto> [''x'']] world0) ''a.org''
     = Some \<lparr>records = [''TXT'' \<mapsto> [''x'']], expiry = 600000000000\<rparr>"
    by (simp add: dnsCache_cacheResult)
  show ?thesis
    using stored getCachedResult_at_expiry [OF stored] by simp
qed

section \<open>normalizeDomain\<close>

lemma fst_normalizeDomain:
  "fst (normalizeDomain e domain w) =
     (case idna_ToASCII e domain of (normalized, None) \<Rightarrow> normalized | (normalized, Some err) \<Rightarrow> domain)"
  by (simp add: normalizeDomain_def split: prod.splits option.splits)

lemma normalizeDomain_frame:
  "dnsCache (snd (normalizeDomain e domain w)) = dnsCache w"
  "netCalls (snd (normalizeDomain e domain w)) = netCalls w"
  "stdout (snd (normalizeDomain e domain w)) = stdout w"
  by (simp_all add: normalizeDomain_def log_Printf_def split: prod.splits option.splits)

text \<open>
  C7. When \<open>idna.ToASCII\<close> returns an error, \<open>normalizeDomain\<close> returns its argument as
  it was given, whatever string came with the error, and only writes a log entry; and
  the string it returns depends on the argument alone, not on the state of the program.
\<close>

theorem normalizeDomain_fallback:
  "(\<forall>err. snd (idna_ToASCII e domain) = Some err \<longrightarrow>
      normalizeDomain e domain w = (domain, w\<lparr>logged := logged w @ [''Error normalizing domain: '' @ err]\<rparr>))
   \<and> fst (normalizeDomain e domain w) = fst (normalizeDomain e domain w')"
  by (simp add: normalizeDomain_def log_Printf_def split: prod.splits option.splits)

theorem normalizeDomain_fallback_witness:
  "idna_ToASCII env_down ''a..b'' = ([], Some ''idna: invalid label'')
   \<and> fst (normalizeDomain env_down ''a..b'' world0) = ''a..b''
   \<and> logged (snd (normalizeDomain env_down ''a..b'' world0)) =
        [''Error normalizing domain: idna: invalid label'']"
  using normalizeDomain_fallback [of env_down "''a..b''" world0 world0]
  by (simp add: env_down_def world0_def)

section \<open>resolveDNS\<close>

lemma appendIPs_apply:
  "appendIPs e ips recs k =
     (if k = ''A'' \<and> filter (\<lambda>ip. IP_To4 e ip \<noteq> None) ips \<noteq> []
      then Some (index_map recs ''A'' @ map (IP_String e) (filter (\<lambda>ip. IP_To4 e ip \<noteq> None) ips))
      else if k = ''AAAA'' \<and> filter (\<lambda>ip. IP_To4 e ip = None) ips \<noteq> []
      then Some (index_map recs ''AAAA'' @ map (IP_String e) (filter (\<lambda>ip. IP_To4 e ip = None) ips))
      else recs k)"
  by (induction ips arbitrary: recs) (simp_all add: append_key_apply index_map_append_key)

lemma appendMXs_apply:
  "appendMXs mxs recs k =
     (if k = ''MX'' \<and> mxs \<noteq> [] then Some (index_map recs ''MX'' @ map Sprintf_MX mxs)
      else recs k)"
  by (induction mxs arbitrary: recs) (simp_all add: append_key_apply index_map_append_key)

lemma appendNSs_apply:
  "appendNSs nss recs k =
     (if k = ''NS'' \<and> nss \<noteq> [] then Some (index_map recs ''NS'' @ map ns_Host nss)
      else recs k)"
  by (induction nss arbitrary: recs) (simp_all add: append_key_apply index_map_append_key)

lemmas lookup_defs = lookupA_def lookupCNAME_def lookupMX_def lookupTXT_def lookupNS_def

lemma lookupAll_frame:
  "netCalls (snd (lookupAll e d (recs, w))) =
     netCalls w @ [LookupIP d, LookupCNAME d, LookupMX d, LookupTXT d, LookupNS d]"
  "dnsCache (snd (lookupAll e d (recs, w))) = dnsCache w"
  "stdout (snd (lookupAll e d (recs, w))) = stdout w"
  by (simp_all add: lookupAll_def lookup_defs invoke_def log_Printf_def
        split: prod.splits option.splits)

text \<open>The record set the five blocks build from the empty map, key by key.\<close>

lemma lookupAll_A:
  "fst (lookupAll e d (Map.empty, w)) ''A'' =
     (case net_LookupIP e d of
        (ips, None) \<Rightarrow>
          if filter (\<lambda>ip. IP_To4 e ip \<noteq> None) ips = [] then None
          else Some (map (IP_String e) (filter (\<lambda>ip. IP_To4 e ip \<noteq> None) ips))
      | (ips, Some err) \<Rightarrow> None)"
  by (simp add: lookupAll_def lookup_defs appendIPs_apply appendMXs_apply appendNSs_apply
        index_map_def split: prod.splits option.splits)

lemma lookupAll_AAAA:
  "fst (lookupAll e d (Map.empty, w)) ''AAAA'' =
     (case net_LookupIP e d of
        (ips, None) \<Rightarrow>
          if filter (\<lambda>ip. IP_To4 e ip = None) ips = [] then None
          else Some (map (IP_String e) (filter (\<lambda>ip. IP_To4 e ip = None) ips))
      | (ips, Some err) \<Rightarrow> None)"
  by (simp add: lookupAll_def lookup_defs appendIPs_apply appendMXs_apply appendNSs_apply
        index_map_def split: prod.splits option.splits)

lemma lookupAll_CNAME:
  "fst (lookupAll e d (Map.empty, w)) ''CNAME'' =
     (case net_LookupCNAME e d of (cname, None) \<Rightarrow> Some [cname] | (cname, Some err) \<Rightarrow> None)"
  by (simp add: lookupAll_def lookup_defs appendIPs_apply appendMXs_apply appendNSs_apply
        index_map_def split: prod.splits option.splits)

lemma lookupAll_MX:
  "fst (lookupAll e d (Map.empty, w)) ''MX'' =
     (case net_LookupMX e d of
        (mxs, None) \<Rightarrow> if mxs = [] then None else Some (map Sprintf_MX mxs)
      | (mxs, Some err) \<Rightarrow> None)"
  by (simp add: lookupAll_def lookup_defs appendIPs_apply appendMXs_apply appendNSs_apply
        index_map_def split: prod.splits option.splits)

lemma lookupAll_TXT:
  "fst (lookupAll e d (Map.empty, w)) ''TXT'' =
     (case net_LookupTXT e d of (txts, None) \<Rightarrow> Some txts | (txts, Some err) \<Rightarrow> None)"
  by (simp add: lookupAll_def lookup_defs appendIPs_apply appendMXs_apply appendNSs_apply
        index_map_def split: prod.splits option.splits)

lemma lookupAll_NS:
  "fst (lookupAll e d (Map.empty, w)) ''NS'' =
     (case net_LookupNS e d of
        (nss, None) \<Rightarrow> if nss = [] then None else Some (map ns_Host nss)
      | (nss, Some err) \<Rightarrow> None)"
  by (simp add: lookupAll_def lookup_defs appendIPs_apply appendMXs_apply appendNSs_apply
        index_map_def split: prod.splits option.splits)

lemma lookupAll_other:
  assumes "k \<noteq> ''A''" "k \<noteq> ''AAAA''" "k \<noteq> ''CNAME''" "k \<noteq> ''MX''" "k \<noteq> ''TXT''" "k \<noteq> ''NS''"
  shows "fst (lookupAll e d (Map.empty, w)) k = None"
  using assms
  by (simp add: lookupAll_def lookup_defs appendIPs_apply appendMXs_apply appendNSs_apply
        index_map_def split: prod.splits option.splits)

lemma resolveDNS_hit:
  assumes "snd (getCachedResult t_get (fst (normalizeDomain e domain w)) w)"
  shows "resolveDNS e t_get t_put domain w =
           (fst (getCachedResult t_get (fst (normalizeDomain e domain w)) w),
            fmt_Println ''Cache hit!'' (snd (normalizeDomain e domain w)))"
proof -
  obtain d w1 where n: "normalizeDomain e domain w = (d, w1)"
    by (cases "normalizeDomain e domain w")
  have "dnsCache w1 = dnsCache w"
    using normalizeDomain_frame(1) [of e domain w] n by simp
  then have g: "getCachedResult t_get d w1 = getCachedResult t_get d w"
    by (rule getCachedResult_cong)
  obtain cached found where c: "getCachedResult t_get d w = (cached, found)"
    by (cases "getCachedResult t_get d w")
  with assms n have "found" by simp
  with n g c show ?thesis by (simp add: resolveDNS_def)
qed

lemma resolveDNS_miss:
  assumes "\<not> snd (getCachedResult t_get (fst (normalizeDomain e domain w)) w)"
  shows "resolveDNS e t_get t_put domain w =
           (fst (lookupAll e (fst (normalizeDomain e domain w))
                   (Map.empty, snd (normalizeDomain e domain w))),
            cacheResult t_put (fst (normalizeDomain e domain w))
              (fst (lookupAll e (fst (normalizeDomain e domain w))
                      (Map.empty, snd (normalizeDomain e domain w))))
              (snd (lookupAll e (fst (normalizeDomain e domain w))
                      (Map.empty, snd (normalizeDomain e domain w)))))"
proof -
  obtain d w1 where n: "normalizeDomain e domain w = (d, w1)"
    by (cases "normalizeDomain e domain w")
  have "dnsCache w1 = dnsCache w"
    using normalizeDomain_frame(1) [of e domain w] n by simp
  then have g: "getCachedResult t_get d w1 = getCachedResult t_get d w"
    by (rule getCachedResult_cong)
  obtain cached found where c: "getCachedResult t_get d w = (cached, found)"
    by (cases "getCachedResult t_get d w")
  with assms n have "\<not> found" by simp
  with n g c show ?thesis by (simp add: resolveDNS_def split: prod.splits)
qed

lemma lookupAll_keys:
  assumes "fst (lookupAll e d (Map.empty, w)) k = Some vs"
  shows "(k = ''A'' \<and> snd (net_LookupIP e d) = None \<and> vs \<noteq> []
            \<and> vs = map (IP_String e) (filter (\<lambda>ip. IP_To4 e ip \<noteq> None) (fst (net_LookupIP e d))))
       \<or> (k = ''AAAA'' \<and> snd (net_LookupIP e d) = None \<and> vs \<noteq> []
            \<and> vs = map (IP_String e) (filter (\<lambda>ip. IP_To4 e ip = None) (fst (net_LookupIP e d))))
       \<or> (k = ''CNAME'' \<and> snd (net_LookupCNAME e d) = None \<and> vs = [fst (net_LookupCNAME e d)])
       \<or> (k = ''MX'' \<and> snd (net_LookupMX e d) = None \<and> vs \<noteq> []
            \<and> vs = map Sprintf_MX (fst (net_LookupMX e d)))
       \<or> (k = ''TXT'' \<and> snd (net_LookupTXT e d) = None \<and> vs = fst (net_LookupTXT e d))
       \<or> (k = ''NS'' \<and> snd (net_LookupNS e d) = None \<and> vs \<noteq> []
            \<and> vs = map ns_Host (fst (net_LookupNS e d)))"
proof -
  consider "k = ''A''" | "k = ''AAAA''" | "k = ''CNAME''" | "k = ''MX''" | "k = ''TXT''" | "k = ''NS''"
    | "k \<noteq> ''A''" "k \<noteq> ''AAAA''" "k \<noteq> ''CNAME''" "k \<noteq> ''MX''" "k \<noteq> ''TXT''" "k \<noteq> ''NS''"
    by blast
  then show ?thesis
  proof cases
    case 1
    with assms show ?thesis
      by (auto simp: lookupAll_A split: prod.splits option.splits if_splits)
  next
    case 2
    with assms show ?thesis
      by (auto simp: lookupAll_AAAA split: prod.splits option.splits if_splits)
  next
    case 3
    with assms show ?thesis
      by (auto simp: lookupAll_CNAME split: prod.splits option.splits if_splits)
  next
    case 4
    with assms show ?thesis
      by (auto simp: lookupAll_MX split: prod.splits option.splits if_splits)
  next
    case 5
    with assms show ?thesis
      by (auto simp: lookupAll_TXT split: prod.splits option.splits if_splits)
  next
    case 6
    with assms show ?thesis
      by (auto simp: lookupAll_NS split: prod.splits option.splits if_splits)
  next
    case 7
    with assms show ?thesis
      by (simp add: lookupAll_other)
  qed
qed

lemma lookupAll_all_fail:
  assumes "snd (net_LookupIP e d) \<noteq> None" "snd (net_LookupCNAME e d) \<noteq> None"
    "snd (net_LookupMX e d) \<noteq> None" "snd (net_LookupTXT e d) \<noteq> None"
    "snd (net_LookupNS e d) \<noteq> None"
  shows "fst (lookupAll e d (Map.empty, w)) = Map.empty"
proof
  fix k
  show "fst (lookupAll e d (Map.empty, w)) k = None"
  proof (cases "fst (lookupAll e d (Map.empty, w)) k")
    case None
    then show ?thesis .
  next
    case (Some vs)
    from lookupAll_keys [OF Some] assms show ?thesis
      by auto
  qed
qed

text \<open>
  C3. When the cache holds, under the normalized domain, an entry whose expiry the clock has
  not passed, \<open>resolveDNS\<close> returns the record set of that entry, invokes no lookup of the
  resolver, and leaves the cache as it was.
\<close>

theorem resolveDNS_cache_hit:
  assumes "dnsCache w (fst (normalizeDomain e domain w)) = Some entry"
    and "t_get \<le> expiry entry"
  shows "fst (resolveDNS e t_get t_put domain w) = records entry
         \<and> netCalls (snd (resolveDNS e t_get t_put domain w)) = netCalls w
         \<and> dnsCache (snd (resolveDNS e t_get t_put domain w)) = dnsCache w"
proof -
  have g: "getCachedResult t_get (fst (normalizeDomain e domain w)) w = (records entry, True)"
    using assms by (simp add: getCachedResult_cases)
  then have "resolveDNS e t_get t_put domain w =
      (records entry, fmt_Println ''Cache hit!'' (snd (normalizeDomain e domain w)))"
    using resolveDNS_hit [of t_get e domain w t_put] by simp
  then show ?thesis
    by (simp add: fmt_Println_def fmt_Print_def normalizeDomain_frame)
qed

theorem resolveDNS_cache_hit_witness:
  "dnsCache (cacheResult 0 ''example.com'' [''TXT'' \<mapsto> [''x'']] world0)
       (fst (normalizeDomain env_up ''example.com''
               (cacheResult 0 ''example.com'' [''TXT'' \<mapsto> [''x'']] world0)))
     = Some \<lparr>records = [''TXT'' \<mapsto> [''x'']], expiry = 600000000000\<rparr>
   \<and> fst (resolveDNS env_up 600000000000 600000000009 ''example.com''
            (cacheResult 0 ''example.com'' [''TXT'' \<mapsto> [''x'']] world0)) = [''TXT'' \<mapsto> [''x'']]
   \<and> netCalls (snd (resolveDNS env_up 600000000000 600000000009 ''example.com''
            (cacheResult 0 ''example.com'' [''TXT'' \<mapsto> [''x'']] world0))) = []"
proof -
  have stored: "dnsCache (cacheResult 0 ''example.com'' [''TXT'' \<mapsto> [''x'']] world0)
       (fst (normalizeDomain env_up ''example.com''
               (cacheResult 0 ''example.com'' [''TXT'' \<mapsto> [''x'']] world0)))
     = Some \<lparr>records = [''TXT'' \<mapsto> [''x'']], expiry = 600000000000\<rparr>"
    by (simp add: fst_normalizeDomain env_up_def env_down_def dnsCache_cacheResult)
  have fresh: "(600000000000::int) \<le> expiry \<lparr>records = [''TXT'' \<mapsto> [''x'']], expiry = 600000000000\<rparr>"
    by simp
  have "netCalls (cacheResult 0 ''example.com'' [''TXT'' \<mapsto> [''x'']] world0) = []"
    by (simp add: cacheResult_def world0_def)
  with stored resolveDNS_cache_hit [OF stored fresh, of 600000000009] show ?thesis
    by simp
qed

text \<open>
  C1. On a cache miss \<open>resolveDNS\<close> invokes all five lookups, in the order of the source,
  whichever of them fail, and returns a record set: a category whose lookup returned an error
  has no key in it (neither \<open>A\<close> nor \<open>AAAA\<close> for the address lookup). The function has
  no error result.
\<close>

theorem resolveDNS_partial_failure:
  assumes "\<not> snd (getCachedResult t_get (fst (normalizeDomain e domain w)) w)"
  shows "let d = fst (normalizeDomain e domain w);
             recs = fst (resolveDNS e t_get t_put domain w);
             w' = snd (resolveDNS e t_get t_put domain w)
         in netCalls w' =
              netCalls w @ [LookupIP d, LookupCNAME d, LookupMX d, LookupTXT d, LookupNS d]
            \<and> (snd (net_LookupIP e d) \<noteq> None \<longrightarrow> recs ''A'' = None \<and> recs ''AAAA'' = None)
            \<and> (snd (net_LookupCNAME e d) \<noteq> None \<longrightarrow> recs ''CNAME'' = None)
            \<and> (snd (net_LookupMX e d) \<noteq> None \<longrightarrow> recs ''MX'' = None)
            \<and> (snd (net_LookupTXT e d) \<noteq> None \<longrightarrow> recs ''TXT'' = None)
            \<and> (snd (net_LookupNS e d) \<noteq> None \<longrightarrow> recs ''NS'' = None)"
proof -
  note r = resolveDNS_miss [OF assms, of t_put]
  have calls: "netCalls (snd (resolveDNS e t_get t_put domain w)) =
      netCalls w @ [LookupIP (fst (normalizeDomain e domain w)),
        LookupCNAME (fst (normalizeDomain e domain w)), LookupMX (fst (normalizeDomain e domain w)),
        LookupTXT (fst (normalizeDomain e domain w)), LookupNS (fst (normalizeDomain e domain w))]"
    by (simp add: r cacheResult_def lookupAll_frame normalizeDomain_frame)
  have recs: "fst (resolveDNS e t_get t_put domain w) =
      fst (lookupAll e (fst (normalizeDomain e domain w)) (Map.empty, snd (normalizeDomain e domain w)))"
    by (simp add: r)
  have a: "snd (net_LookupIP e (fst (normalizeDomain e domain w))) \<noteq> None \<longrightarrow>
      fst (resolveDNS e t_get t_put domain w) ''A'' = None
      \<and> fst (resolveDNS e t_get t_put domain w) ''AAAA'' = None"
    unfolding recs by (auto simp: lookupAll_A lookupAll_AAAA split: prod.splits option.splits)
  have c: "snd (net_LookupCNAME e (fst (normalizeDomain e domain w))) \<noteq> None \<longrightarrow>
      fst (resolveDNS e t_get t_put domain w) ''CNAME'' = None"
    unfolding recs by (auto simp: lookupAll_CNAME split: prod.splits option.splits)
  have m: "snd (net_LookupMX e (fst (normalizeDomain e domain w))) \<noteq> None \<longrightarrow>
      fst (resolveDNS e t_get t_put domain w) ''MX'' = None"
    unfolding recs by (auto simp: lookupAll_MX split: prod.splits option.splits)
  have t: "snd (net_LookupTXT e (fst (normalizeDomain e domain w))) \<noteq> None \<longrightarrow>
      fst (resolveDNS e t_get t_put domain w) ''TXT'' = None"
    unfolding recs by (auto simp: lookupAll_TXT split: prod.splits option.splits)
  have n: "snd (net_LookupNS e (fst (normalizeDomain e domain w))) \<noteq> None \<longrightarrow>
      fst (resolveDNS e t_get t_put domain w) ''NS'' = None"
    unfolding recs by (auto simp: lookupAll_NS split: prod.splits option.splits)
  from calls a c m t n show ?thesis
    unfolding Let_def by blast
qed

theorem resolveDNS_partial_failure_witness:
  "\<not> snd (getCachedResult 0 (fst (normalizeDomain env_up ''example.com'' world0)) world0)
   \<and> snd (net_LookupMX env_up ''example.com'') \<noteq> None
   \<and> fst (resolveDNS env_up 0 9 ''example.com'' world0) ''MX'' = None
   \<and> netCalls (snd (resolveDNS env_up 0 9 ''example.com'' world0)) =
       [LookupIP ''example.com'', LookupCNAME ''example.com'', LookupMX ''example.com'',
        LookupTXT ''example.com'', LookupNS ''example.com'']"
proof -
  have miss: "\<not> snd (getCachedResult 0 (fst (normalizeDomain env_up ''example.com'' world0)) world0)"
    by (simp add: getCachedResult_cases world0_def)
  have d: "fst (normalizeDomain env_up ''example.com'' world0) = ''example.com''"
    by (simp add: fst_normalizeDomain env_up_def env_down_def)
  have mx: "snd (net_LookupMX env_up ''example.com'') \<noteq> None"
    by (simp add: env_up_def env_down_def)
  have "netCalls world0 = []"
    by (simp add: world0_def)
  with miss mx resolveDNS_partial_failure [OF miss, of 9] show ?thesis
    by (simp add: Let_def d)
qed

text \<open>
  C6. On a cache miss \<open>resolveDNS\<close> stores the record set it returns under the normalized
  domain, with expiry 10 minutes after the clock read by \<open>cacheResult\<close>; when all five
  lookups fail that record set is the empty one, and it is stored all the same.
\<close>

theorem resolveDNS_stores_result:
  assumes "\<not> snd (getCachedResult t_get (fst (normalizeDomain e domain w)) w)"
  shows "let d = fst (normalizeDomain e domain w);
             recs = fst (resolveDNS e t_get t_put domain w);
             w' = snd (resolveDNS e t_get t_put domain w)
         in dnsCache w' d = Some \<lparr>records = recs, expiry = t_put + 600000000000\<rparr>
            \<and> (snd (net_LookupIP e d) \<noteq> None \<and> snd (net_LookupCNAME e d) \<noteq> None
                \<and> snd (net_LookupMX e d) \<noteq> None \<and> snd (net_LookupTXT e d) \<noteq> None
                \<and> snd (net_LookupNS e d) \<noteq> None
                \<longrightarrow> recs = Map.empty
                    \<and> dnsCache w' d = Some \<lparr>records = Map.empty, expiry = t_put + 600000000000\<rparr>)"
proof -
  note r = resolveDNS_miss [OF assms, of t_put]
  have stored: "dnsCache (snd (resolveDNS e t_get t_put domain w)) (fst (normalizeDomain e domain w))
      = Some \<lparr>records = fst (resolveDNS e t_get t_put domain w), expiry = t_put + 600000000000\<rparr>"
    by (simp add: r dnsCache_cacheResult)
  have recs: "fst (resolveDNS e t_get t_put domain w) =
      fst (lookupAll e (fst (normalizeDomain e domain w)) (Map.empty, snd (normalizeDomain e domain w)))"
    by (simp add: r)
  have empty: "snd (net_LookupIP e (fst (normalizeDomain e domain w))) \<noteq> None
      \<and> snd (net_LookupCNAME e (fst (normalizeDomain e domain w))) \<noteq> None
      \<and> snd (net_LookupMX e (fst (normalizeDomain e domain w))) \<noteq> None
      \<and> snd (net_LookupTXT e (fst (normalizeDomain e domain w))) \<noteq> None
      \<and> snd (net_LookupNS e (fst (normalizeDomain e domain w))) \<noteq> None
      \<longrightarrow> fst (resolveDNS e t_get t_put domain w) = Map.empty"
    unfolding recs using lookupAll_all_fail by blast
  from stored empty show ?thesis
    unfolding Let_def by auto
qed

theorem resolveDNS_stores_result_witness:
  "\<not> snd (getCachedResult 0 (fst (normalizeDomain env_down ''example.com'' world0)) world0)
   \<and> fst (resolveDNS env_down 0 9 ''example.com'' world0) = Map.empty
   \<and> dnsCache (snd (resolveDNS env_down 0 9 ''example.com'' world0)) ''example.com''
       = Some \<lparr>records = Map.empty, expiry = 600000000009\<rparr>"
proof -
  have miss: "\<not> snd (getCachedResult 0 (fst (normalizeDomain env_down ''example.com'' world0)) world0)"
    by (simp add: getCachedResult_cases world0_def)
  have d: "fst (normalizeDomain env_down ''example.com'' world0) = ''example.com''"
    by (simp add: fst_normalizeDomain env_down_def)
  have fails: "snd (net_LookupIP env_down ''example.com'') \<noteq> None
      \<and> snd (net_LookupCNAME env_down ''example.com'') \<noteq> None
      \<and> snd (net_LookupMX env_down ''example.com'') \<noteq> None
      \<and> snd (net_LookupTXT env_down ''example.com'') \<noteq> None
      \<and> snd (net_LookupNS env_down ''example.com'') \<noteq> None"
    by (simp add: env_down_def)
  with miss resolveDNS_stores_result [OF miss, of 9] show ?thesis
    by (simp add: Let_def d)
qed

text \<open>
  C2. The record set returned by \<open>resolveDNS\<close> should hold no key mapped to an empty
  list. The blocks for \<open>A\<close>, \<open>AAAA\<close>, \<open>MX\<close> and \<open>NS\<close> keep to this: a lookup
  that succeeds with no values leaves their key out. The \<open>TXT\<close> block does not: with the
  same outcome it stores the key \<open>TXT\<close>, mapped to the empty list.
\<close>

theorem resolveDNS_empty_TXT_key:
  "net_LookupTXT env_empty ''example.com'' = ([], None)
   \<and> fst (resolveDNS env_empty 0 9 ''example.com'' world0) ''TXT'' = Some []
   \<and> net_LookupIP env_empty ''example.com'' = ([], None)
   \<and> fst (resolveDNS env_empty 0 9 ''example.com'' world0) ''A'' = None
   \<and> fst (resolveDNS env_empty 0 9 ''example.com'' world0) ''AAAA'' = None
   \<and> net_LookupMX env_empty ''example.com'' = ([], None)
   \<and> fst (resolveDNS env_empty 0 9 ''example.com'' world0) ''MX'' = None
   \<and> net_LookupNS env_empty ''example.com'' = ([], None)
   \<and> fst (resolveDNS env_empty 0 9 ''example.com'' world0) ''NS'' = None"
proof -
  have miss: "\<not> snd (getCachedResult 0 (fst (normalizeDomain env_empty ''example.com'' world0)) world0)"
    by (simp add: getCachedResult_cases world0_def)
  have d: "fst (normalizeDomain env_empty ''example.com'' world0) = ''example.com''"
    by (simp add: fst_normalizeDomain env_empty_def env_down_def)
  have ip: "net_LookupIP env_empty ''example.com'' = ([], None)"
    by (simp add: env_empty_def)
  have mx: "net_LookupMX env_empty ''example.com'' = ([], None)"
    by (simp add: env_empty_def)
  have tx: "net_LookupTXT env_empty ''example.com'' = ([], None)"
    by (simp add: env_empty_def)
  have ns: "net_LookupNS env_empty ''example.com'' = ([], None)"
    by (simp add: env_empty_def)
  show ?thesis
    by (simp add: resolveDNS_miss [OF miss] d lookupAll_TXT lookupAll_A lookupAll_AAAA
          lookupAll_MX lookupAll_NS ip mx tx ns)
qed

section \<open>resolveBatch and main\<close>

lemma netCalls_printValues: "netCalls (printValues vs w) = netCalls w"
  by (induction vs arbitrary: w) (simp_all add: fmt_Println_def fmt_Print_def)

lemma netCalls_printTypes: "netCalls (printTypes recs ks w) = netCalls w"
  by (induction ks arbitrary: w)
    (simp_all add: netCalls_printValues fmt_Print_def split: option.splits)

lemma netCalls_printRecords: "netCalls (printRecords e domain recs w) = netCalls w"
  by (simp add: printRecords_def netCalls_printTypes fmt_Print_def)

text \<open>
  C8. When \<open>os.Open\<close> returns an error for the path, \<open>resolveBatch\<close> ends the process
  with status 1 after writing one log entry: it does not return, no goroutine is launched, no
  lookup is invoked, and the cache and the output are as they were.
\<close>

theorem resolveBatch_open_fails:
  assumes "snd (os_Open e filePath) = Some err"
  shows "resolveBatch e filePath w = Exit 1 (w\<lparr>logged := logged w @ [''Error reading file: '' @ err]\<rparr>)
         \<and> (\<forall>w'. resolveBatch e filePath w \<noteq> Return w')
         \<and> (\<forall>domains w'. resolveBatch e filePath w \<noteq> FanOut domains w')"
  using assms by (cases "os_Open e filePath") (simp add: resolveBatch_def log_Printf_def)

theorem resolveBatch_open_fails_witness:
  "snd (os_Open env_down ''domains.txt'') = Some ''no such file or directory''
   \<and> resolveBatch env_down ''domains.txt'' world0 =
       Exit 1 (world0\<lparr>logged := [''Error reading file: no such file or directory'']\<rparr>)"
proof -
  have fails: "snd (os_Open env_down ''domains.txt'') = Some ''no such file or directory''"
    by (simp add: env_down_def)
  have "logged world0 = []"
    by (simp add: world0_def)
  with fails resolveBatch_open_fails [OF fails, of world0] show ?thesis
    by simp
qed

text \<open>
  C9, as stated, fails: \<open>main\<close> tests for \<open>.\<close> before it tests for \<open>:\<close>. The
  IPv4-mapped IPv6 address \<open>::ffff:192.0.2.1\<close>, given as the only argument, holds both:
  it goes to \<open>resolveDNS\<close>, and \<open>net.LookupAddr\<close> is not invoked.
\<close>

theorem main_colon_and_dot_counterexample:
  "CHR '':'' \<in> set ''::ffff:192.0.2.1''
   \<and> main env_down 0 9 [''dns'', ''::ffff:192.0.2.1''] world0 =
       Return (printRecords env_down ''::ffff:192.0.2.1''
                 (fst (resolveDNS env_down 0 9 ''::ffff:192.0.2.1'' world0))
                 (snd (resolveDNS env_down 0 9 ''::ffff:192.0.2.1'' world0)))
   \<and> main env_down 0 9 [''dns'', ''::ffff:192.0.2.1''] world0 \<noteq>
       Return (reverseDNS env_down ''::ffff:192.0.2.1'' world0)"
proof -
  let ?arg = "''::ffff:192.0.2.1''"
  let ?r = "resolveDNS env_down 0 9 ?arg world0"
  have opened: "os_OpenFile_log env_down = None"
    by (simp add: env_down_def)
  have dot: "Contains ?arg ''.''"
    by (simp add: Contains_single)
  have m: "main env_down 0 9 [''dns'', ?arg] world0 =
      Return (printRecords env_down ?arg (fst ?r) (snd ?r))"
    using opened dot by (simp add: main_def initLogger_def Let_def case_prod_beta)
  have miss: "\<not> snd (getCachedResult 0 (fst (normalizeDomain env_down ?arg world0)) world0)"
    by (simp add: getCachedResult_cases world0_def)
  have d: "fst (normalizeDomain env_down ?arg world0) = ?arg"
    by (simp add: fst_normalizeDomain env_down_def)
  have "netCalls (snd ?r) = netCalls world0 @
      [LookupIP ?arg, LookupCNAME ?arg, LookupMX ?arg, LookupTXT ?arg, LookupNS ?arg]"
    by (simp add: resolveDNS_miss [OF miss] d cacheResult_def lookupAll_frame normalizeDomain_frame)
  then have resolved: "netCalls (printRecords env_down ?arg (fst ?r) (snd ?r)) =
      [LookupIP ?arg, LookupCNAME ?arg, LookupMX ?arg, LookupTXT ?arg, LookupNS ?arg]"
    by (simp add: netCalls_printRecords world0_def)
  have reversed: "netCalls (reverseDNS env_down ?arg world0) = [LookupAddr ?arg]"
    by (simp add: reverseDNS_def env_down_def log_Printf_def invoke_def world0_def)
  from resolved reversed
  have "printRecords env_down ?arg (fst ?r) (snd ?r) \<noteq> reverseDNS env_down ?arg world0"
    by auto
  with m show ?thesis
    by simp
qed

text \<open>
  C9, amended. Once the log file has opened, an argument that contains \<open>:\<close> and does not
  contain \<open>.\<close> is passed to \<open>reverseDNS\<close>, whatever arguments follow it.
\<close>

theorem main_reverse:
  assumes "os_OpenFile_log e = None"
    and "CHR '':'' \<in> set arg"
    and "CHR ''.'' \<notin> set arg"
  shows "main e t_get t_put (prog # arg # rest) w = Return (reverseDNS e arg w)"
  using assms by (simp add: main_def initLogger_def Contains_single Let_def)

theorem main_reverse_witness:
  "os_OpenFile_log env_down = None
   \<and> CHR '':'' \<in> set ''2001:db8::1''
   \<and> CHR ''.'' \<notin> set ''2001:db8::1''
   \<and> main env_down 0 9 [''dns'', ''2001:db8::1''] world0 =
       Return (reverseDNS env_down ''2001:db8::1'' world0)"
proof -
  have opened: "os_OpenFile_log env_down = None"
    by (simp add: env_down_def)
  have colon: "CHR '':'' \<in> set ''2001:db8::1''"
    by simp
  have dot: "CHR ''.'' \<notin> set ''2001:db8::1''"
    by simp
  from opened colon dot main_reverse [OF opened colon dot, of 0 9 "''dns''" "[]" world0]
  show ?thesis
    by simp
qed

end
